theory Spec2Isabelle
  imports Complex_Main
begin

section \<open>JavaScript values and strings\<close>

text \<open>
  The program is \<^verbatim>\<open>src/performance-test.js\<close>, the class \<^verbatim>\<open>PerformanceTestRunner\<close>.
  Strings are modelled as \<^typ>\<open>string\<close>: lists of 8-bit characters, i.e. JavaScript strings
  whose code units all lie in the Latin-1 range. Sizes in kilobytes are JavaScript numbers;
  every finite double is a rational, the comparisons \<^verbatim>\<open><=\<close> of the source are exact on
  them, and the products \<^verbatim>\<open>limit * 1.5\<close> of the threshold tables are exact, so a size is
  modelled as a \<^typ>\<open>rat\<close>. Where the source computes a size (a quotient, a product, a
  sum), the result is rounded to a double as IEEE 754 does.
\<close>

text \<open>
  What reading a property of one of the threshold tables can give: \<^verbatim>\<open>undefined\<close>, a number,
  or an object (a function or \<^verbatim>\<open>Object.prototype\<close> itself).
\<close>

datatype jsval = Undefined | Num rat | Obj

text \<open>
  The tables \<^verbatim>\<open>limits\<close> are object literals, so they inherit from \<^verbatim>\<open>Object.prototype\<close>.
  A property read \<^verbatim>\<open>limits[k]\<close> first looks for an own property and then walks the
  prototype chain; these are the property names every object literal inherits.
\<close>

definition object_prototype_keys :: "string list" where
  "object_prototype_keys =
     [''constructor'', ''__defineGetter__'', ''__defineSetter__'', ''hasOwnProperty'',
      ''__lookupGetter__'', ''__lookupSetter__'', ''isPrototypeOf'', ''propertyIsEnumerable'',
      ''toString'', ''valueOf'', ''__proto__'', ''toLocaleString'']"

definition get_property :: "(string \<times> rat) list \<Rightarrow> string \<Rightarrow> jsval" where
  "get_property obj k =
     (case map_of obj k of
        Some v \<Rightarrow> Num v
      | None \<Rightarrow> if k \<in> set object_prototype_keys then Obj else Undefined)"

text \<open>\<^verbatim>\<open>v || d\<close>: the left operand unless it is falsy (\<^verbatim>\<open>undefined\<close>, \<^verbatim>\<open>0\<close>).\<close>

fun or_default :: "jsval \<Rightarrow> rat \<Rightarrow> jsval" where
  "or_default Undefined d = Num d"
| "or_default (Num v) d = (if v = 0 then Num d else Num v)"
| "or_default Obj d = Obj"

text \<open>
  \<^verbatim>\<open>ToNumber\<close>; \<^const>\<open>None\<close> stands for \<^verbatim>\<open>NaN\<close>, which is what a function or a plain
  object converts to.
\<close>

fun to_number :: "jsval \<Rightarrow> rat option" where
  "to_number (Num v) = Some v"
| "to_number Undefined = None"
| "to_number Obj = None"

text \<open>\<^verbatim>\<open>a <= b\<close> and \<^verbatim>\<open>a * b\<close> on numbers; a comparison with \<^verbatim>\<open>NaN\<close> is false.\<close>

fun js_le :: "rat \<Rightarrow> rat option \<Rightarrow> bool" where
  "js_le a (Some b) = (a \<le> b)"
| "js_le a None = False"

fun js_times :: "rat option \<Rightarrow> rat \<Rightarrow> rat option" where
  "js_times (Some a) b = Some (a * b)"
| "js_times None b = None"

text \<open>
  \<^verbatim>\<open>String.prototype.toLowerCase\<close> and \<^verbatim>\<open>toUpperCase\<close> on Latin-1 code units. Lower-casing
  maps A-Z and the accented capitals 0xC0-0xDE (without the multiplication sign 0xD7) 32
  places up. Upper-casing is only applied by the source to the three priority names, which are
  ASCII; on ASCII it maps a-z 32 places down.
\<close>

definition lower_char :: "char \<Rightarrow> char" where
  "lower_char c =
     (let n = (of_char c :: nat) in
      if (65 \<le> n \<and> n \<le> 90) \<or> (192 \<le> n \<and> n \<le> 222 \<and> n \<noteq> 215)
      then char_of (n + 32) else c)"

definition toLowerCase :: "string \<Rightarrow> string" where
  "toLowerCase s = map lower_char s"

definition upper_ascii :: "char \<Rightarrow> char" where
  "upper_ascii c =
     (let n = (of_char c :: nat) in
      if 97 \<le> n \<and> n \<le> 122 then char_of (n - 32) else c)"

definition toUpperCase :: "string \<Rightarrow> string" where
  "toUpperCase s = map upper_ascii s"

section \<open>The extension of a path\<close>

text \<open>
  \<^verbatim>\<open>path.extname\<close> belongs to Node.js, not to the repository. It is modelled after the POSIX
  implementation in Node's \<^verbatim>\<open>lib/path.js\<close>: one backwards scan over the path that keeps the
  position of the last dot of the last path segment, and a final test that rejects names
  without a dot, names that start with their only dot, and the segment \<^verbatim>\<open>..\<close>.
  The value \<open>-1\<close> is "not set", as in Node.
\<close>

record ext_state =
  startDot :: int
  startPart :: int
  endPos :: int
  matchedSlash :: bool
  preDotState :: int

definition ext_init :: ext_state where
  "ext_init = \<lparr>startDot = -1, startPart = 0, endPos = -1, matchedSlash = True, preDotState = 0\<rparr>"

text \<open>The body of the loop for the index \<open>i\<close>, when the character is not a slash.\<close>

definition ext_step :: "char \<Rightarrow> nat \<Rightarrow> ext_state \<Rightarrow> ext_state" where
  "ext_step code i st =
     (let st1 = (if endPos st = -1 then st\<lparr>matchedSlash := False, endPos := int i + 1\<rparr> else st)
      in if code = CHR ''.''
         then (if startDot st1 = -1 then st1\<lparr>startDot := int i\<rparr>
               else if preDotState st1 \<noteq> 1 then st1\<lparr>preDotState := 1\<rparr> else st1)
         else if startDot st1 \<noteq> -1 then st1\<lparr>preDotState := -1\<rparr> else st1)"

text \<open>\<^verbatim>\<open>for (let i = path.length - 1; i >= 0; --i)\<close>; the counter is \<open>i + 1\<close>.\<close>

fun ext_loop :: "string \<Rightarrow> nat \<Rightarrow> ext_state \<Rightarrow> ext_state" where
  "ext_loop path 0 st = st"
| "ext_loop path (Suc i) st =
     (if path ! i = CHR ''/''
      then (if \<not> matchedSlash st then st\<lparr>startPart := int i + 1\<rparr> else ext_loop path i st)
      else ext_loop path i (ext_step (path ! i) i st))"

definition extname :: "string \<Rightarrow> string" where
  "extname path =
     (let st = ext_loop path (length path) ext_init in
      if startDot st = -1 \<or> endPos st = -1 \<or> preDotState st = 0 \<or>
         (preDotState st = 1 \<and> startDot st = endPos st - 1 \<and> startDot st = startPart st + 1)
      then []
      else take (nat (endPos st) - nat (startDot st)) (drop (nat (startDot st)) path))"

text \<open>
  The invariant of the scan when the indices from \<open>n\<close> on have been read: the end of the
  extension, once set, lies beyond \<open>n\<close>, and the dot, once set, is a dot of the path before
  that end.
\<close>

definition ext_inv :: "string \<Rightarrow> nat \<Rightarrow> ext_state \<Rightarrow> bool" where
  "ext_inv path n st =
     ((endPos st = -1 \<or> (int n < endPos st \<and> endPos st \<le> int (length path))) \<and>
      (startDot st = -1 \<or>
         (0 \<le> startDot st \<and> startDot st < endPos st \<and> path ! nat (startDot st) = CHR ''.'')))"

section \<open>The size classifier\<close>

text \<open>
  The three verdict strings of the source: check mark "good", warning sign "caution",
  cross "improvement needed".
\<close>

datatype verdict = Good | Warning | NeedsImprovement

definition file_limits :: "(string \<times> rat) list" where
  "file_limits = [(''index.html'', 100), (''styles.css'', 50),
                  (''integration-test.html'', 150), (''test-responsive.html'', 30)]"

definition asset_limits :: "(string \<times> rat) list" where
  "asset_limits = [(''.gif'', 2000), (''.png'', 500), (''.jpg'', 300), (''.jpeg'', 300),
                   (''.webp'', 200)]"

text \<open>The three lines shared by both classifiers, for a limit already read.\<close>

definition classify :: "jsval \<Rightarrow> rat \<Rightarrow> verdict" where
  "classify limit sizeKB =
     (if js_le sizeKB (to_number limit) then Good
      else if js_le sizeKB (js_times (to_number limit) (3 / 2)) then Warning
      else NeedsImprovement)"

definition evaluateFileSize :: "string \<Rightarrow> rat \<Rightarrow> verdict" where
  "evaluateFileSize filename sizeKB =
     (let limit = or_default (get_property file_limits filename) 50
      in classify limit sizeKB)"

definition evaluateAssetSize :: "string \<Rightarrow> rat \<Rightarrow> verdict" where
  "evaluateAssetSize filename sizeKB =
     (let ext = toLowerCase (extname filename);
          limit = or_default (get_property asset_limits ext) 500
      in classify limit sizeKB)"

text \<open>
  The threshold the specification speaks of: the entry of the table for the category, the
  default where the table has none.
\<close>

definition threshold :: "(string \<times> rat) list \<Rightarrow> rat \<Rightarrow> string \<Rightarrow> rat" where
  "threshold table dflt category = (case map_of table category of Some v \<Rightarrow> v | None \<Rightarrow> dflt)"

section \<open>Regular expressions\<close>

text \<open>
  The regular expressions of the source are sequences of literals, an optional character,
  and greedy or lazy repetitions of a character class; one of them is an alternation of
  literals. A regular expression is modelled as the list of its alternatives, each a list of
  atoms, and matched as the backtracking matcher of JavaScript does: alternatives and
  repetition counts are tried in priority order and the first success is taken.
\<close>

datatype cclass = AnyChar | NotChar char | Space

datatype atom = Lit string | Opt char | Star cclass | LazyStar cclass | Plus cclass

type_synonym regex = "atom list list"

text \<open>\<^verbatim>\<open>\s\<close> on Latin-1: tab, line feed, vertical tab, form feed, carriage return, space, no-break space.\<close>

definition is_space :: "char \<Rightarrow> bool" where
  "is_space c = ((of_char c :: nat) \<in> {9, 10, 11, 12, 13, 32, 160})"

text \<open>
  The classes of the source are "any character" (\<^verbatim>\<open>[\s\S]\<close>), "any character but one" (a
  brace or an angle bracket) and white space; none contains a letter, so the flag \<^verbatim>\<open>i\<close>
  does not change them.
\<close>

fun in_class :: "cclass \<Rightarrow> char \<Rightarrow> bool" where
  "in_class AnyChar c = True"
| "in_class (NotChar d) c = (c \<noteq> d)"
| "in_class Space c = is_space c"

text \<open>
  Comparing a pattern character with an input character; under the flag \<^verbatim>\<open>i\<close> both are
  canonicalised, which for the ASCII patterns of the source identifies a letter with its
  other case and nothing else.
\<close>

definition char_eq :: "bool \<Rightarrow> char \<Rightarrow> char \<Rightarrow> bool" where
  "char_eq ci p c = (if ci then upper_ascii p = upper_ascii c else p = c)"

fun lit_match :: "bool \<Rightarrow> string \<Rightarrow> string \<Rightarrow> string option" where
  "lit_match ci [] s = Some s"
| "lit_match ci (p # ps) [] = None"
| "lit_match ci (p # ps) (c # cs) = (if char_eq ci p c then lit_match ci ps cs else None)"

text \<open>
  \<open>rmatch ci atoms s\<close> matches the sequence \<open>atoms\<close> at the start of \<open>s\<close> and gives the
  rest of the input after the match that backtracking finds first.
\<close>

fun rmatch :: "bool \<Rightarrow> atom list \<Rightarrow> string \<Rightarrow> string option" where
  "rmatch ci [] s = Some s"
| "rmatch ci (Lit l # r) s =
     (case lit_match ci l s of Some s' \<Rightarrow> rmatch ci r s' | None \<Rightarrow> None)"
| "rmatch ci (Opt c # r) s =
     (case s of
        [] \<Rightarrow> rmatch ci r []
      | x # xs \<Rightarrow>
          if char_eq ci c x
          then (case rmatch ci r xs of Some t \<Rightarrow> Some t | None \<Rightarrow> rmatch ci r s)
          else rmatch ci r s)"
| "rmatch ci (Star c # r) s =
     (case s of
        [] \<Rightarrow> rmatch ci r []
      | x # xs \<Rightarrow>
          if in_class c x
          then (case rmatch ci (Star c # r) xs of Some t \<Rightarrow> Some t | None \<Rightarrow> rmatch ci r s)
          else rmatch ci r s)"
| "rmatch ci (LazyStar c # r) s =
     (case rmatch ci r s of
        Some t \<Rightarrow> Some t
      | None \<Rightarrow>
          (case s of
             [] \<Rightarrow> None
           | x # xs \<Rightarrow> if in_class c x then rmatch ci (LazyStar c # r) xs else None))"
| "rmatch ci (Plus c # r) s =
     (case s of
        [] \<Rightarrow> None
      | x # xs \<Rightarrow> if in_class c x then rmatch ci (Star c # r) xs else None)"

fun alt_match :: "bool \<Rightarrow> regex \<Rightarrow> string \<Rightarrow> string option" where
  "alt_match ci [] s = None"
| "alt_match ci (a # alts) s =
     (case rmatch ci a s of Some t \<Rightarrow> Some t | None \<Rightarrow> alt_match ci alts s)"

text \<open>
  \<^verbatim>\<open>s.match(re)\<close> with the flag \<^verbatim>\<open>g\<close>: the matches from left to right, each search starting
  where the previous match ended (one character further after an empty match). The source
  replaces the \<^verbatim>\<open>null\<close> of "no match" by the empty array.
\<close>

fun match_all :: "bool \<Rightarrow> regex \<Rightarrow> string \<Rightarrow> string list" where
  "match_all ci re s =
     (case alt_match ci re s of
        Some rest \<Rightarrow>
          if length rest < length s
          then take (length s - length rest) s # match_all ci re rest
          else (case s of [] \<Rightarrow> [[]] | x # xs \<Rightarrow> [] # match_all ci re xs)
      | None \<Rightarrow> (case s of [] \<Rightarrow> [] | x # xs \<Rightarrow> match_all ci re xs))"

text \<open>\<^verbatim>\<open>s.replace(re, '')\<close> with the flag \<^verbatim>\<open>g\<close>: every match is removed.\<close>

fun replace_empty :: "bool \<Rightarrow> regex \<Rightarrow> string \<Rightarrow> string" where
  "replace_empty ci re s =
     (case alt_match ci re s of
        Some rest \<Rightarrow>
          if length rest < length s
          then replace_empty ci re rest
          else (case s of [] \<Rightarrow> [] | x # xs \<Rightarrow> x # replace_empty ci re xs)
      | None \<Rightarrow> (case s of [] \<Rightarrow> [] | x # xs \<Rightarrow> x # replace_empty ci re xs))"

text \<open>
  The equations of the two scans rewrite a call into a term with the same call in it, so
  they are unfolded by hand only.
\<close>

declare match_all.simps [simp del] replace_empty.simps [simp del]

text \<open>\<^verbatim>\<open>(s.match(re) || []).length\<close> for a case-sensitive global expression.\<close>

definition count_matches :: "regex \<Rightarrow> string \<Rightarrow> nat" where
  "count_matches re s = length (match_all False re s)"

text \<open>\<^verbatim>\<open>s.split('\n').length\<close>: one more than the number of line feeds.\<close>

definition count_lines :: "string \<Rightarrow> nat" where
  "count_lines s = length (filter (\<lambda>c. c = CHR 0x0A) s) + 1"

section \<open>The stylesheet analyzer\<close>

record css_analysis =
  totalLines :: nat
  totalRules :: nat
  mediaQueries :: nat
  keyframes :: nat
  willChangeUsage :: nat
  transformUsage :: nat
  animationUsage :: nat
  transitionUsage :: nat
  complexSelectors :: nat
  importantUsage :: nat

text \<open>A property name, optional white space, a colon.\<close>

definition property_re :: "string \<Rightarrow> regex" where
  "property_re name = [[Lit name, Star Space, Lit '':'']]"

text \<open>An at-rule opener: the keyword, then everything up to and including the first brace.\<close>

definition at_rule_re :: "string \<Rightarrow> regex" where
  "at_rule_re name = [[Lit name, Star (NotChar CHR ''{''), Lit ''{'']]"

definition rule_re :: regex where
  "rule_re = [[Lit ''{'', Star (NotChar CHR ''}''), Lit ''}'']]"

definition complex_selector_re :: regex where
  "complex_selector_re =
     [[Star (NotChar CHR ''{''), Plus Space, Star (NotChar CHR ''{''), Plus Space,
       Star (NotChar CHR ''{''), Plus Space, Star (NotChar CHR ''{''), Lit ''{'']]"

definition important_re :: regex where
  "important_re = [[Lit ''!important'']]"

definition analyzeCSSPerformance :: "string \<Rightarrow> css_analysis" where
  "analyzeCSSPerformance cssContent =
     \<lparr>totalLines = count_lines cssContent,
      totalRules = count_matches rule_re cssContent,
      mediaQueries = count_matches (at_rule_re ''@media'') cssContent,
      keyframes = count_matches (at_rule_re ''@keyframes'') cssContent,
      willChangeUsage = count_matches (property_re ''will-change'') cssContent,
      transformUsage = count_matches (property_re ''transform'') cssContent,
      animationUsage = count_matches (property_re ''animation'') cssContent,
      transitionUsage = count_matches (property_re ''transition'') cssContent,
      complexSelectors = count_matches complex_selector_re cssContent,
      importantUsage = count_matches important_re cssContent\<rparr>"

section \<open>The script-pattern analyzer\<close>

record js_analysis =
  totalJSLines :: nat
  eventListeners :: nat
  setTimeoutUsage :: nat
  setIntervalUsage :: nat
  animationFrameUsage :: nat
  domQueries :: nat
  scriptTags :: nat

text \<open>
  The field \<open>totalJSLines\<close> is \<^verbatim>\<open>totalLines\<close> of the source's \<^verbatim>\<open>analysis\<close> object, under the
  name of the local variable that is stored there.
\<close>

definition script_re :: regex where
  "script_re =
     [[Lit ''<script'', Star (NotChar CHR ''>''), Lit ''>'', LazyStar AnyChar, Lit ''</script>'']]"

definition script_tag_re :: regex where
  "script_tag_re = [[Lit ''<'', Opt CHR ''/'', Lit ''script'', Star (NotChar CHR ''>''), Lit ''>'']]"

definition dom_query_re :: regex where
  "dom_query_re = [[Lit ''querySelector''], [Lit ''getElementById''], [Lit ''getElementsBy'']]"

definition js_zero :: js_analysis where
  "js_zero = \<lparr>totalJSLines = 0, eventListeners = 0, setTimeoutUsage = 0, setIntervalUsage = 0,
              animationFrameUsage = 0, domQueries = 0, scriptTags = 0\<rparr>"

text \<open>The callback of \<^verbatim>\<open>scriptMatches.forEach\<close>, on the six running counters.\<close>

definition script_step :: "js_analysis \<Rightarrow> string \<Rightarrow> js_analysis" where
  "script_step acc script =
     (let scriptContent = replace_empty True script_tag_re script in
      acc\<lparr>totalJSLines := totalJSLines acc + count_lines scriptContent,
          eventListeners := eventListeners acc + count_matches [[Lit ''addEventListener'']] scriptContent,
          setTimeoutUsage := setTimeoutUsage acc + count_matches [[Lit ''setTimeout'']] scriptContent,
          setIntervalUsage := setIntervalUsage acc + count_matches [[Lit ''setInterval'']] scriptContent,
          animationFrameUsage :=
            animationFrameUsage acc + count_matches [[Lit ''requestAnimationFrame'']] scriptContent,
          domQueries := domQueries acc + count_matches dom_query_re scriptContent\<rparr>)"

definition scriptMatches :: "string \<Rightarrow> string list" where
  "scriptMatches htmlContent = match_all True script_re htmlContent"

definition analyzeJSPerformance :: "string \<Rightarrow> js_analysis" where
  "analyzeJSPerformance htmlContent =
     (foldl script_step js_zero (scriptMatches htmlContent))
       \<lparr>scriptTags := length (scriptMatches htmlContent)\<rparr>"

section \<open>Recommendations\<close>

text \<open>
  The messages of the source are Japanese sentences; each is named here by what it says.
  \<open>AssetTooLarge\<close> is the template string with the file name and its size in KB.
\<close>

datatype message =
    AddWillChange
  | SimplifySelectors
  | ReviewImportant
  | RemoveUnusedCSS
  | UseAnimationFrame
  | ReviewSetInterval
  | ReuseDomElements
  | SplitJavaScript
  | OptimizeImages
  | AssetTooLarge string rat
  | ConsiderWebP

record recommendation =
  type :: string
  priority :: string
  message :: message

text \<open>
  \<^verbatim>\<open>if (cond) { this.results.recommendations.push(rec); }\<close>, with the array passed explicitly.
\<close>

definition push_if :: "bool \<Rightarrow> recommendation \<Rightarrow> recommendation list \<Rightarrow> recommendation list" where
  "push_if cond r recs = (if cond then recs @ [r] else recs)"

definition evaluateCSSPerformance :: "css_analysis \<Rightarrow> recommendation list \<Rightarrow> recommendation list" where
  "evaluateCSSPerformance analysis recs =
     (let recs1 = push_if (willChangeUsage analysis < animationUsage analysis)
                    \<lparr>type = ''CSS'', priority = ''high'', message = AddWillChange\<rparr> recs;
          recs2 = push_if (complexSelectors analysis > 10)
                    \<lparr>type = ''CSS'', priority = ''medium'', message = SimplifySelectors\<rparr> recs1;
          recs3 = push_if (importantUsage analysis > 5)
                    \<lparr>type = ''CSS'', priority = ''medium'', message = ReviewImportant\<rparr> recs2
      in push_if (totalRules analysis > 500)
           \<lparr>type = ''CSS'', priority = ''low'', message = RemoveUnusedCSS\<rparr> recs3)"

definition evaluateJSPerformance :: "js_analysis \<Rightarrow> recommendation list \<Rightarrow> recommendation list" where
  "evaluateJSPerformance analysis recs =
     (let recs1 = push_if (animationFrameUsage analysis = 0 \<and> setTimeoutUsage analysis > 0)
                    \<lparr>type = ''JavaScript'', priority = ''high'', message = UseAnimationFrame\<rparr> recs;
          recs2 = push_if (setIntervalUsage analysis > 0)
                    \<lparr>type = ''JavaScript'', priority = ''medium'', message = ReviewSetInterval\<rparr> recs1;
          recs3 = push_if (domQueries analysis > 20)
                    \<lparr>type = ''JavaScript'', priority = ''medium'', message = ReuseDomElements\<rparr> recs2
      in push_if (totalJSLines analysis > 1000)
           \<lparr>type = ''JavaScript'', priority = ''low'', message = SplitJavaScript\<rparr> recs3)"

section \<open>Double arithmetic\<close>

text \<open>
  A JavaScript number is an IEEE 754 double, and every arithmetic operation gives the double
  nearest to the exact result, a tie going to the even significand. \<open>fl\<close> is this
  rounding on the rationals: the magnitude is scaled by powers of two until it lies in
  \<open>[2 ^ 52, 2 ^ 53)\<close>, rounded to an integer, and scaled back. It has neither infinities
  nor subnormal numbers, so it is the rounding of the source as long as the magnitudes stay
  between \<open>2 ^ -1022\<close> and \<open>2 ^ 1024\<close> (or are 0).
\<close>

function scale_down :: "rat \<Rightarrow> int \<Rightarrow> rat \<times> int" where
  "scale_down m e = (if 2 ^ 53 \<le> m then scale_down (m / 2) (e + 1) else (m, e))"
  by pat_completeness auto
termination
proof (relation "measure (\<lambda>(m, e). nat \<lfloor>m\<rfloor>)")
  show "wf (measure (\<lambda>(m, e). nat \<lfloor>m\<rfloor>))" by simp
next
  fix m :: rat and e :: int
  assume big: "2 ^ 53 \<le> m"
  then have "m / 2 + 1 \<le> m" by simp
  then have "\<lfloor>m / 2 + 1\<rfloor> \<le> \<lfloor>m\<rfloor>" by (rule floor_mono)
  then have "\<lfloor>m / 2\<rfloor> + 1 \<le> \<lfloor>m\<rfloor>" by simp
  moreover have "(1::rat) \<le> m" using big by simp
  then have "0 < \<lfloor>m\<rfloor>" by (simp add: less_floor_iff)
  ultimately show "((m / 2, e + 1), (m, e)) \<in> measure (\<lambda>(m, e). nat \<lfloor>m\<rfloor>)"
    unfolding in_measure prod.case by linarith
qed

function scale_up :: "rat \<Rightarrow> int \<Rightarrow> rat \<times> int" where
  "scale_up m e = (if 0 < m \<and> m < 2 ^ 52 then scale_up (m * 2) (e - 1) else (m, e))"
  by pat_completeness auto
termination
proof (relation "measure (\<lambda>(m, e). nat \<lceil>2 ^ 52 / m\<rceil>)")
  show "wf (measure (\<lambda>(m, e). nat \<lceil>2 ^ 52 / m\<rceil>))" by simp
next
  fix m :: rat and e :: int
  assume small: "0 < m \<and> m < 2 ^ 52"
  define y where "y = 2 ^ 52 / m"
  have y1: "1 < y" using small by (simp add: y_def)
  then have c2: "2 \<le> \<lceil>y\<rceil>" by (simp add: le_ceiling_iff) 
  have "y / 2 \<le> of_int \<lceil>y\<rceil> / 2" by (simp add: le_of_int_ceiling)
  also have "\<dots> \<le> of_int (\<lceil>y\<rceil> - 1)" using c2 by simp
  finally have "y / 2 \<le> of_int (\<lceil>y\<rceil> - 1)" .
  then have "\<lceil>y / 2\<rceil> \<le> \<lceil>y\<rceil> - 1" by (rule ceiling_le)
  moreover have "2 ^ 52 / (m * 2) = y / 2" by (simp add: y_def)
  ultimately have lt: "\<lceil>2 ^ 52 / (m * 2)\<rceil> < \<lceil>2 ^ 52 / m\<rceil>"
    unfolding y_def by simp
  have pos: "0 < \<lceil>2 ^ 52 / m\<rceil>" using c2 unfolding y_def by linarith
  show "((m * 2, e - 1), (m, e)) \<in> measure (\<lambda>(m, e). nat \<lceil>2 ^ 52 / m\<rceil>)"
    unfolding in_measure prod.case zless_nat_conj using pos lt by (rule conjI)
qed

definition pow2 :: "int \<Rightarrow> rat" where
  "pow2 e = (if 0 \<le> e then 2 ^ nat e else 1 / 2 ^ nat (- e))"

definition round_half_even :: "rat \<Rightarrow> int" where
  "round_half_even m =
     (let f = \<lfloor>m\<rfloor>; r = m - of_int f in
      if r < 1 / 2 then f
      else if 1 / 2 < r then f + 1
      else if even f then f else f + 1)"

definition fl :: "rat \<Rightarrow> rat" where
  "fl x =
     (let down = scale_down \<bar>x\<bar> 0;
          norm = scale_up (fst down) (snd down)
      in sgn x * of_int (round_half_even (fst norm)) * pow2 (snd norm))"

section \<open>The asset inventory\<close>

text \<open>
  \<^verbatim>\<open>Math.round\<close> rounds to the nearest integer, a half upwards; it is exact on the double
  it is given.
\<close>

definition js_round :: "rat \<Rightarrow> rat" where
  "js_round x = of_int \<lfloor>x + 1 / 2\<rfloor>"

text \<open>
  \<^verbatim>\<open>Math.round(stats.size / 1024 * 100) / 100\<close>, for a size in bytes: the size as a number,
  the quotient, the product and the last quotient are each rounded to a double.
\<close>

definition kb_of_bytes :: "nat \<Rightarrow> rat" where
  "kb_of_bytes bytes = fl (js_round (fl (fl (fl (of_nat bytes) / 1024) * 100)) / 100)"

text \<open>\<^verbatim>\<open>Math.round(totalSize * 100) / 100\<close>.\<close>

definition round2 :: "rat \<Rightarrow> rat" where
  "round2 x = fl (js_round (fl (x * 100)) / 100)"

record asset_detail =
  asset_size :: rat
  asset_type :: string
  status :: verdict

text \<open>
  The object \<^verbatim>\<open>assetDetails\<close> is an association list of its own properties in the order of
  their creation. An assignment \<^verbatim>\<open>obj[k] = v\<close> of an object \<open>v\<close> under the key
  \<^verbatim>\<open>__proto__\<close> sets the prototype and creates no property; under a key that exists it
  replaces the value; otherwise it appends a property.
\<close>

definition set_property :: "(string \<times> 'v) list \<Rightarrow> string \<Rightarrow> 'v \<Rightarrow> (string \<times> 'v) list" where
  "set_property obj k v =
     (if k = ''__proto__'' then obj
      else if k \<in> fst ` set obj then map (\<lambda>(k', v'). if k' = k then (k', v) else (k', v')) obj
      else obj @ [(k, v)])"

text \<open>
  \<^verbatim>\<open>Object.keys\<close> and \<^verbatim>\<open>Object.entries\<close> list the array indices first, in ascending numeric
  order, then the other keys in the order of creation. An array index is the canonical
  decimal numeral of an integer below \<open>2 ^ 32 - 1\<close>.
\<close>

definition is_digit :: "char \<Rightarrow> bool" where
  "is_digit c = (48 \<le> (of_char c :: nat) \<and> (of_char c :: nat) \<le> 57)"

definition digits_value :: "string \<Rightarrow> int" where
  "digits_value s = foldl (\<lambda>n c. 10 * n + (of_char c - 48)) 0 s"

definition array_index :: "string \<Rightarrow> int option" where
  "array_index k =
     (if k \<noteq> [] \<and> list_all is_digit k \<and> (k = ''0'' \<or> hd k \<noteq> CHR ''0'') \<and>
         digits_value k < 4294967295
      then Some (digits_value k) else None)"

definition entries :: "(string \<times> 'v) list \<Rightarrow> (string \<times> 'v) list" where
  "entries obj =
     sort_key (\<lambda>(k, v). case array_index k of Some n \<Rightarrow> n | None \<Rightarrow> 0)
       (filter (\<lambda>(k, v). array_index k \<noteq> None) obj)
     @ filter (\<lambda>(k, v). array_index k = None) obj"

definition keys :: "(string \<times> 'v) list \<Rightarrow> string list" where
  "keys obj = map fst (entries obj)"

record asset_analysis =
  totalAssets :: nat
  totalSize :: rat
  details :: "(string \<times> asset_detail) list"

text \<open>
  The callback of \<^verbatim>\<open>assets.forEach\<close> on the running total and the details object;
  \<open>stat_size\<close> is the size in bytes that \<^verbatim>\<open>fs.statSync\<close> reports for an asset.
\<close>

definition asset_step ::
  "(string \<Rightarrow> nat) \<Rightarrow> rat \<times> (string \<times> asset_detail) list \<Rightarrow> string
     \<Rightarrow> rat \<times> (string \<times> asset_detail) list" where
  "asset_step stat_size acc asset =
     (let sizeKB = kb_of_bytes (stat_size asset) in
      (fl (fst acc + sizeKB),
       set_property (snd acc) asset
         \<lparr>asset_size = sizeKB, asset_type = toLowerCase (extname asset),
          status = evaluateAssetSize asset sizeKB\<rparr>))"

definition analyzeAssets :: "(string \<Rightarrow> nat) \<Rightarrow> string list \<Rightarrow> asset_analysis" where
  "analyzeAssets stat_size assets =
     (let acc = foldl (asset_step stat_size) (0, []) assets in
      \<lparr>totalAssets = length assets, totalSize = round2 (fst acc), details = snd acc\<rparr>)"

text \<open>The callback of \<^verbatim>\<open>Object.entries(analysis.details).forEach\<close>.\<close>

definition large_asset_step :: "recommendation list \<Rightarrow> string \<times> asset_detail \<Rightarrow> recommendation list" where
  "large_asset_step recs entry =
     push_if (status (snd entry) = NeedsImprovement)
       \<lparr>type = ''Assets'', priority = ''medium'',
        message = AssetTooLarge (fst entry) (asset_size (snd entry))\<rparr> recs"

definition hasWebP :: "asset_analysis \<Rightarrow> bool" where
  "hasWebP analysis =
     list_ex (\<lambda>filename. toLowerCase (extname filename) = ''.webp'') (keys (details analysis))"

definition webp_recommendation :: recommendation where
  "webp_recommendation = \<lparr>type = ''Assets'', priority = ''low'', message = ConsiderWebP\<rparr>"

definition evaluateAssetPerformance :: "asset_analysis \<Rightarrow> recommendation list \<Rightarrow> recommendation list" where
  "evaluateAssetPerformance analysis recs =
     (let recs1 = push_if (totalSize analysis > 5000)
                    \<lparr>type = ''Assets'', priority = ''high'', message = OptimizeImages\<rparr> recs;
          recs2 = foldl large_asset_step recs1 (entries (details analysis))
      in push_if (\<not> hasWebP analysis \<and> totalAssets analysis > 0) webp_recommendation recs2)"

section \<open>Score and report\<close>

text \<open>The body of the \<^verbatim>\<open>switch\<close> on the priority; it has no default case.\<close>

definition score_step :: "int \<Rightarrow> recommendation \<Rightarrow> int" where
  "score_step score rec =
     (if priority rec = ''high'' then score - 15
      else if priority rec = ''medium'' then score - 10
      else if priority rec = ''low'' then score - 5
      else score)"

definition compute_score :: "recommendation list \<Rightarrow> int" where
  "compute_score recs = max 0 (foldl score_step 100 recs)"

text \<open>The four lines printed under the score.\<close>

datatype band = Excellent | GoodBand | Caution | NeedsWork

definition band_of :: "int \<Rightarrow> band" where
  "band_of score =
     (if score \<ge> 90 then Excellent
      else if score \<ge> 70 then GoodBand
      else if score \<ge> 50 then Caution
      else NeedsWork)"

text \<open>
  The lines that \<^verbatim>\<open>generateReport\<close> prints for the recommendations: the heading of the
  section, the heading of a priority group with the priority in upper case, a numbered
  recommendation, or the line that says there is none.
\<close>

datatype line =
    SectionHeading
  | GroupHeading string
  | Item nat string message
  | NoRecommendations

definition priorityOrder :: "string list" where
  "priorityOrder = [''high'', ''medium'', ''low'']"

text \<open>\<^verbatim>\<open>recs.forEach((rec, index) => ...)\<close>: the index counts from 0 and \<open>index + 1\<close> is printed.\<close>

definition print_items :: "recommendation list \<Rightarrow> line list" where
  "print_items recs =
     map (\<lambda>(index, rec). Item (index + 1) (type rec) (message rec)) (zip [0..<length recs] recs)"

definition print_group :: "recommendation list \<Rightarrow> string \<Rightarrow> line list" where
  "print_group recommendations p =
     (let recs = filter (\<lambda>r. priority r = p) recommendations in
      if length recs > 0 then GroupHeading (toUpperCase p) # print_items recs else [])"

definition print_recommendations :: "recommendation list \<Rightarrow> line list" where
  "print_recommendations recommendations =
     (if length recommendations > 0
      then SectionHeading # concat (map (print_group recommendations) priorityOrder)
      else [NoRecommendations])"

record summary =
  totalFiles :: nat
  totalRecommendations :: nat
  highPriorityIssues :: nat
  mediumPriorityIssues :: nat
  lowPriorityIssues :: nat

record file_record =
  file_size :: rat
  file_status :: verdict

record results =
  fileAnalysis :: "(string \<times> file_record) list"
  cssAnalysis :: "css_analysis option"
  jsAnalysis :: "js_analysis option"
  assetAnalysis :: "asset_analysis option"
  recommendations :: "recommendation list"

text \<open>
  The report of \<^verbatim>\<open>saveJSONReport\<close>, without its time stamp. An analysis that did not run
  (\<^const>\<open>None\<close>) is the empty object the constructor puts there.
\<close>

record report =
  score :: int
  summary :: summary
  report_details :: results

definition saveJSONReport :: "results \<Rightarrow> int \<Rightarrow> report" where
  "saveJSONReport res sc =
     \<lparr>score = sc,
      summary =
        \<lparr>totalFiles = length (keys (fileAnalysis res)),
         totalRecommendations = length (recommendations res),
         highPriorityIssues = length (filter (\<lambda>r. priority r = ''high'') (recommendations res)),
         mediumPriorityIssues = length (filter (\<lambda>r. priority r = ''medium'') (recommendations res)),
         lowPriorityIssues = length (filter (\<lambda>r. priority r = ''low'') (recommendations res))\<rparr>,
      report_details = res\<rparr>"

section \<open>A run\<close>

text \<open>
  What a run reads from the file system: for each of the four scanned files its size in
  bytes if it exists, the text of the stylesheet and of the markup document if they exist,
  the listing of the asset directory if it exists, and the size in bytes of each asset.
  A failure of the file system itself ends the process without a report and is not part of
  the model.
\<close>

record filesystem =
  file_bytes :: "string \<Rightarrow> nat option"
  styles_css :: "string option"
  index_html :: "string option"
  assets_dir :: "string list option"
  asset_bytes :: "string \<Rightarrow> nat"

definition scanned_files :: "string list" where
  "scanned_files = [''index.html'', ''styles.css'', ''integration-test.html'', ''test-responsive.html'']"

definition results_init :: results where
  "results_init = \<lparr>fileAnalysis = [], cssAnalysis = None, jsAnalysis = None,
                    assetAnalysis = None, recommendations = []\<rparr>"

definition file_step :: "filesystem \<Rightarrow> results \<Rightarrow> string \<Rightarrow> results" where
  "file_step fs res file =
     (case file_bytes fs file of
        None \<Rightarrow> res
      | Some bytes \<Rightarrow>
          let sizeKB = kb_of_bytes bytes in
          res\<lparr>fileAnalysis :=
                set_property (fileAnalysis res) file
                  \<lparr>file_size = sizeKB, file_status = evaluateFileSize file sizeKB\<rparr>\<rparr>)"

definition analyzeFileSizes :: "filesystem \<Rightarrow> results \<Rightarrow> results" where
  "analyzeFileSizes fs res = foldl (file_step fs) res scanned_files"

definition run_css :: "filesystem \<Rightarrow> results \<Rightarrow> results" where
  "run_css fs res =
     (case styles_css fs of
        None \<Rightarrow> res
      | Some cssContent \<Rightarrow>
          let analysis = analyzeCSSPerformance cssContent in
          res\<lparr>cssAnalysis := Some analysis,
              recommendations := evaluateCSSPerformance analysis (recommendations res)\<rparr>)"

definition run_js :: "filesystem \<Rightarrow> results \<Rightarrow> results" where
  "run_js fs res =
     (case index_html fs of
        None \<Rightarrow> res
      | Some htmlContent \<Rightarrow>
          let analysis = analyzeJSPerformance htmlContent in
          res\<lparr>jsAnalysis := Some analysis,
              recommendations := evaluateJSPerformance analysis (recommendations res)\<rparr>)"

definition run_assets :: "filesystem \<Rightarrow> results \<Rightarrow> results" where
  "run_assets fs res =
     (case assets_dir fs of
        None \<Rightarrow> res
      | Some assets \<Rightarrow>
          let analysis = analyzeAssets (asset_bytes fs) assets in
          res\<lparr>assetAnalysis := Some analysis,
              recommendations := evaluateAssetPerformance analysis (recommendations res)\<rparr>)"

text \<open>
  \<^verbatim>\<open>run\<close>: the four analyses in the order of the source, each appending its recommendations,
  then the report with the score of \<^verbatim>\<open>generateReport\<close>.
\<close>

definition run_results :: "filesystem \<Rightarrow> results" where
  "run_results fs = run_assets fs (run_js fs (run_css fs (analyzeFileSizes fs results_init)))"

definition run :: "filesystem \<Rightarrow> report" where
  "run fs = (let res = run_results fs in saveJSONReport res (compute_score (recommendations res)))"

section \<open>Notions of the specification\<close>

text \<open>
  The sum of a list of numbers as a running total computes it: from the left, each sum
  rounded to a double.
\<close>

definition sum_left :: "rat list \<Rightarrow> rat" where
  "sum_left xs = foldl (\<lambda>total x. fl (total + x)) 0 xs"


text \<open>Two assets of 102 and of 205 bytes, which are 0.1 KB and 0.2 KB.\<close>

definition example_sizes :: "string \<Rightarrow> nat" where
  "example_sizes a = (if a = ''a.png'' then 102 else 205)"

text \<open>The number of recommendations of a priority, and two recommendations to count.\<close>

definition count_priority :: "string \<Rightarrow> recommendation list \<Rightarrow> int" where
  "count_priority p recs = int (length (filter (\<lambda>r. priority r = p) recs))"

definition high_example :: recommendation where
  "high_example = \<lparr>type = ''CSS'', priority = ''high'', message = AddWillChange\<rparr>"

definition medium_example :: recommendation where
  "medium_example = \<lparr>type = ''CSS'', priority = ''medium'', message = SimplifySelectors\<rparr>"

text \<open>
  The recommendation engine of the specification: the three rule sets in the order of a
  run, on an empty list. The all-zero stylesheet metrics and the empty inventory are its
  "otherwise empty" inputs.
\<close>

definition recommendation_engine ::
  "css_analysis \<Rightarrow> js_analysis \<Rightarrow> asset_analysis \<Rightarrow> recommendation list" where
  "recommendation_engine css js assets =
     evaluateAssetPerformance assets (evaluateJSPerformance js (evaluateCSSPerformance css []))"

definition css_zero :: css_analysis where
  "css_zero = \<lparr>totalLines = 0, totalRules = 0, mediaQueries = 0, keyframes = 0,
                willChangeUsage = 0, transformUsage = 0, animationUsage = 0,
                transitionUsage = 0, complexSelectors = 0, importantUsage = 0\<rparr>"

definition empty_inventory :: asset_analysis where
  "empty_inventory = \<lparr>totalAssets = 0, totalSize = 0, details = []\<rparr>"

text \<open>The two texts of the specification's examples.\<close>

definition example_markup :: string where
  "example_markup = ''<script>setTimeout(f,1);setTimeout(g,2);</script>''"

definition example_css :: string where
  "example_css = ''.a .b .c .d { color:red; } @media (max-width:1px){ } !important !important''"

text \<open>Whether the opener of a script tag occurs somewhere, in any case of its letters.\<close>

fun has_script_opener :: "string \<Rightarrow> bool" where
  "has_script_opener [] = False"
| "has_script_opener (c # cs) =
     (lit_match True ''<script'' (c # cs) \<noteq> None \<or> has_script_opener cs)"

text \<open>
  The numbered lines of a group as the specification describes them: the recommendations of
  the group in their order, numbered from 1. \<open>with_priority\<close> is the group of a priority.
\<close>

definition is_item :: "line \<Rightarrow> bool" where
  "is_item l = (case l of Item n t m \<Rightarrow> True | _ \<Rightarrow> False)"

definition numbered :: "recommendation list \<Rightarrow> line list" where
  "numbered recs =
     map (\<lambda>(n, rec). Item n (type rec) (message rec)) (zip [1..<Suc (length recs)] recs)"

definition with_priority :: "string \<Rightarrow> recommendation list \<Rightarrow> recommendation list" where
  "with_priority p recs = filter (\<lambda>r. priority r = p) recs"

text \<open>An asset whose extension, in lower case, is that of the WebP format.\<close>

definition is_webp :: "string \<Rightarrow> bool" where
  "is_webp filename = (toLowerCase (extname filename) = ''.webp'')"

text \<open>The three priorities of the data model.\<close>

definition valid_priority :: "recommendation \<Rightarrow> bool" where
  "valid_priority r = (priority r = ''high'' \<or> priority r = ''medium'' \<or> priority r = ''low'')"

section \<open>Properties of the size classifier\<close>

lemma ext_step_inv:
  assumes "ext_inv path (Suc i) st" and "i < length path"
  shows "ext_inv path i (ext_step (path ! i) i st)"
  using assms by (auto simp: ext_inv_def ext_step_def Let_def)

lemma ext_loop_inv:
  "n \<le> length path \<Longrightarrow> ext_inv path n st \<Longrightarrow> ext_inv path 0 (ext_loop path n st)"
proof (induction n arbitrary: st)
  case 0
  then show ?case by simp
next
  case (Suc i)
  have weaker: "ext_inv path i st" using Suc.prems(2) by (auto simp: ext_inv_def)
  show ?case
  proof (cases "path ! i = CHR ''/''")
    case True
    then show ?thesis
      using Suc.IH [of st] Suc.prems weaker by (auto simp: ext_inv_def)
  next
    case False
    have "ext_inv path i (ext_step (path ! i) i st)"
      using ext_step_inv Suc.prems by simp
    then show ?thesis using False Suc.IH Suc.prems by simp
  qed
qed

lemma extname_dot: "extname path = [] \<or> hd (extname path) = CHR ''.''"
proof -
  define st where "st = ext_loop path (length path) ext_init"
  have "ext_inv path (length path) ext_init" by (simp add: ext_inv_def ext_init_def)
  then have inv: "ext_inv path 0 st" unfolding st_def by (rule ext_loop_inv [OF le_refl])
  show ?thesis
  proof (cases "extname path = []")
    case True
    then show ?thesis by simp
  next
    case False
    then have sd: "startDot st \<noteq> -1"
      unfolding extname_def st_def [symmetric] by (auto simp: Let_def split: if_splits)
    with inv have d: "0 \<le> startDot st" "startDot st < endPos st"
      "endPos st \<le> int (length path)" "path ! nat (startDot st) = CHR ''.''"
      by (auto simp: ext_inv_def)
    from False sd have eq: "extname path = take (nat (endPos st) - nat (startDot st)) (drop (nat (startDot st)) path)"
      unfolding extname_def st_def [symmetric] by (auto simp: Let_def split: if_splits)
    have lt: "nat (startDot st) < length path" using d by linarith
    have pos: "0 < nat (endPos st) - nat (startDot st)" using d by linarith
    have "hd (extname path) = path ! nat (startDot st)"
      unfolding eq using lt pos by (simp add: hd_drop_conv_nth)
    then show ?thesis using d by simp
  qed
qed

lemma lower_ext_not_inherited: "toLowerCase (extname path) \<notin> set object_prototype_keys"
proof -
  have "extname path = [] \<or> hd (extname path) = CHR ''.''" by (rule extname_dot)
  then show ?thesis
  proof
    assume "extname path = []"
    then show ?thesis by (simp add: toLowerCase_def object_prototype_keys_def)
  next
    assume h: "hd (extname path) = CHR ''.''"
    show ?thesis
    proof (cases "extname path")
      case Nil
      then show ?thesis by (simp add: toLowerCase_def object_prototype_keys_def)
    next
      case (Cons c cs)
      with h have "c = CHR ''.''" by simp
      then show ?thesis using Cons
        by (simp add: toLowerCase_def object_prototype_keys_def lower_char_def)
    qed
  qed
qed

lemma classify_num:
  "classify (Num t) s = (if s \<le> t then Good else if s \<le> t * (3 / 2) then Warning else NeedsImprovement)"
  by (simp add: classify_def)

lemma file_limit_num:
  "filename \<notin> set object_prototype_keys \<Longrightarrow>
   or_default (get_property file_limits filename) 50 = Num (threshold file_limits 50 filename)"
  by (simp add: get_property_def threshold_def file_limits_def)

lemma asset_limit_num:
  "ext \<notin> set object_prototype_keys \<Longrightarrow>
   or_default (get_property asset_limits ext) 500 = Num (threshold asset_limits 500 ext)"
  by (simp add: get_property_def threshold_def asset_limits_def)

lemma evaluateAssetSize_rule:
  "evaluateAssetSize filename sizeKB =
     (let t = threshold asset_limits 500 (toLowerCase (extname filename)) in
      if sizeKB \<le> t then Good else if sizeKB \<le> t * (3 / 2) then Warning else NeedsImprovement)"
  by (simp add: evaluateAssetSize_def Let_def asset_limit_num [OF lower_ext_not_inherited] classify_num)

lemma evaluateFileSize_rule:
  "filename \<notin> set object_prototype_keys \<Longrightarrow>
   evaluateFileSize filename sizeKB =
     (let t = threshold file_limits 50 filename in
      if sizeKB \<le> t then Good else if sizeKB \<le> t * (3 / 2) then Warning else NeedsImprovement)"
  by (simp add: evaluateFileSize_def Let_def file_limit_num classify_num)

lemma threshold_file_pos: "0 < threshold file_limits 50 c"
  by (simp add: threshold_def file_limits_def)

lemma threshold_asset_pos: "0 < threshold asset_limits 500 c"
  by (simp add: threshold_def asset_limits_def)

text \<open>
  Claim C1. For every category and every non-negative size the classifier returns Good up to
  the threshold of the category, Warning up to one and a half times the threshold and
  NeedsImprovement above, for the per-file and the per-extension classifier. The lemmas
  \<open>evaluateAssetSize_rule\<close> and \<open>evaluateFileSize_rule\<close> above show this rule for every
  asset name and for every file name that is not the name of a property inherited from
  \<^verbatim>\<open>Object.prototype\<close>. For an inherited name the table has no entry, so the threshold is
  the default 50, but \<^verbatim>\<open>limits[filename] || 50\<close> is the inherited function: the comparisons
  are made with \<^verbatim>\<open>NaN\<close> and the file classifier answers NeedsImprovement for the size 0.
\<close>

theorem evaluateFileSize_inherited_name:
  "threshold file_limits 50 ''constructor'' = 50 \<and>
   evaluateFileSize ''constructor'' 0 = NeedsImprovement"
  by (simp add: threshold_def file_limits_def evaluateFileSize_def get_property_def
      object_prototype_keys_def classify_def)

text \<open>
  Claim C3, as stated: a negative size makes the classifier fail with InvalidInput. The source
  has no check of the size; at the size \<open>-1\<close> both classifiers return Good.
\<close>

theorem negative_size_accepted:
  "evaluateFileSize ''index.html'' (-1) = Good \<and> evaluateAssetSize ''photo.png'' (-1) = Good"
  by code_simp

text \<open>
  Claim C3, amended: for every negative size the classifier raises no error and returns a
  verdict, namely Good: the asset classifier for every asset name, the file classifier for
  every file name that is not the name of a property inherited from \<^verbatim>\<open>Object.prototype\<close>.
\<close>

theorem negative_size_is_good:
  assumes "sizeKB < 0"
  shows "evaluateAssetSize asset sizeKB = Good \<and>
         (filename \<notin> set object_prototype_keys \<longrightarrow> evaluateFileSize filename sizeKB = Good)"
proof -
  have a: "sizeKB \<le> threshold asset_limits 500 (toLowerCase (extname asset))"
    using assms threshold_asset_pos [of "toLowerCase (extname asset)"] by linarith
  have f: "sizeKB \<le> threshold file_limits 50 filename"
    using assms threshold_file_pos [of filename] by linarith
  show ?thesis using a f by (simp add: evaluateAssetSize_rule evaluateFileSize_rule Let_def)
qed

theorem negative_size_is_good_witness:
  "(-5 / 2 :: rat) < 0 \<and> evaluateAssetSize ''banner.gif'' (-5 / 2) = Good \<and>
   ''styles.css'' \<notin> set object_prototype_keys \<and> evaluateFileSize ''styles.css'' (-5 / 2) = Good"
proof -
  have h: "(-5 / 2 :: rat) < 0" by simp
  have k: "''styles.css'' \<notin> set object_prototype_keys" by (simp add: object_prototype_keys_def)
  show ?thesis using negative_size_is_good [OF h, of "''banner.gif''" "''styles.css''"] h k by simp
qed

section \<open>The total size of the assets\<close>

lemma floor_rat_numeral: "\<lfloor>numeral a / numeral b :: rat\<rfloor> = numeral a div numeral b"
  by (metis floor_divide_of_int_eq of_int_numeral)

lemmas rne_eval = round_half_even_def Let_def pow2_def floor_rat_numeral

lemma fl_0: "fl 0 = 0"
  by (simp add: fl_def)

lemma js_round_0: "js_round 0 = 0"
proof -
  have "\<lfloor>(0 + 1 / 2 :: rat)\<rfloor> = 0" by (rule floor_unique) simp_all
  then show ?thesis by (simp add: js_round_def)
qed

lemma round2_0: "round2 0 = 0"
  by (simp add: round2_def js_round_0 fl_0)

lemma asset_fold_total:
  "fst (foldl (asset_step stat_size) (t, d) assets) =
     foldl (\<lambda>total x. fl (total + x)) t (map (\<lambda>a. kb_of_bytes (stat_size a)) assets)"
proof (induction assets arbitrary: t d)
  case Nil
  then show ?case by simp
next
  case (Cons a assets)
  have step: "asset_step stat_size (t, d) a =
      (fl (t + kb_of_bytes (stat_size a)),
       set_property d a \<lparr>asset_size = kb_of_bytes (stat_size a),
         asset_type = toLowerCase (extname a),
         status = evaluateAssetSize a (kb_of_bytes (stat_size a))\<rparr>)"
    by (simp add: asset_step_def Let_def)
  show ?case
    unfolding foldl_Cons step Cons.IH by simp
qed

lemma totalSize_sum_left:
  "totalSize (analyzeAssets stat_size assets) =
     round2 (sum_left (map (\<lambda>a. kb_of_bytes (stat_size a)) assets))"
  by (simp add: analyzeAssets_def Let_def asset_fold_total sum_left_def)










text \<open>
  The roundings of a second example: 102 and 205 bytes are 0.1 KB and 0.2 KB, whose sum as
  doubles is not the double 0.3; the rounding of the total makes it so.
\<close>

lemma fl_102: "fl (102) = 102"
  by (simp add: fl_def) (simp add: rne_eval)

lemma fl_51_512: "fl (51 / 512) = 51 / 512"
  by (simp add: fl_def) (simp add: rne_eval)

lemma fl_1275_128: "fl (1275 / 128) = 1275 / 128"
  by (simp add: fl_def) (simp add: rne_eval)

lemma fl_205: "fl (205) = 205"
  by (simp add: fl_def) (simp add: rne_eval)

lemma fl_205_1024: "fl (205 / 1024) = 205 / 1024"
  by (simp add: fl_def) (simp add: rne_eval)

lemma fl_5125_256: "fl (5125 / 256) = 5125 / 256"
  by (simp add: fl_def) (simp add: rne_eval)

lemma fl_tenth: "fl (1 / 10) = 3602879701896397 / 36028797018963968"
  by (simp add: fl_def) (simp add: rne_eval)

lemma fl_fifth: "fl (1 / 5) = 3602879701896397 / 18014398509481984"
  by (simp add: fl_def) (simp add: rne_eval)

lemma fl_tenth_idem: "fl (3602879701896397 / 36028797018963968) = 3602879701896397 / 36028797018963968"
  by (simp add: fl_def) (simp add: rne_eval)

lemma fl_three_tenths_sum: "fl (10808639105689191 / 36028797018963968) = 1351079888211149 / 4503599627370496"
  by (simp add: fl_def) (simp add: rne_eval)

lemma fl_sum_times_100: "fl (33776997205278725 / 1125899906842624) = 8444249301319681 / 281474976710656"
  by (simp add: fl_def) (simp add: rne_eval)

lemma fl_three_tenths: "fl (3 / 10) = 5404319552844595 / 18014398509481984"
  by (simp add: fl_def) (simp add: rne_eval)

lemma js_round_1275_128: "js_round (1275 / 128) = 10"
proof -
  have "\<lfloor>(1275 / 128 + 1 / 2 :: rat)\<rfloor> = 10" by (rule floor_unique) simp_all
  then show ?thesis by (simp add: js_round_def)
qed

lemma js_round_5125_256: "js_round (5125 / 256) = 20"
proof -
  have "\<lfloor>(5125 / 256 + 1 / 2 :: rat)\<rfloor> = 20" by (rule floor_unique) simp_all
  then show ?thesis by (simp add: js_round_def)
qed

lemma js_round_sum_times_100: "js_round (8444249301319681 / 281474976710656) = 30"
proof -
  have "\<lfloor>(8444249301319681 / 281474976710656 + 1 / 2 :: rat)\<rfloor> = 30" by (rule floor_unique) simp_all
  then show ?thesis by (simp add: js_round_def)
qed

lemma kb_of_102_bytes: "kb_of_bytes 102 = 3602879701896397 / 36028797018963968"
  by (simp add: kb_of_bytes_def fl_102 fl_51_512 fl_1275_128 js_round_1275_128 fl_tenth)

lemma kb_of_205_bytes: "kb_of_bytes 205 = 3602879701896397 / 18014398509481984"
  by (simp add: kb_of_bytes_def fl_205 fl_205_1024 fl_5125_256 js_round_5125_256 fl_fifth)

lemma final_rounding_example:
  "sum_left [kb_of_bytes 102, kb_of_bytes 205] = 1351079888211149 / 4503599627370496 \<and>
   totalSize (analyzeAssets example_sizes [''a.png'', ''b.png'']) = 5404319552844595 / 18014398509481984"
proof -
  have a: "example_sizes ''a.png'' = 102" and b: "example_sizes ''b.png'' = 205"
    by (simp_all add: example_sizes_def)
  have sum: "sum_left [kb_of_bytes 102, kb_of_bytes 205] = 1351079888211149 / 4503599627370496"
    by (simp add: sum_left_def kb_of_102_bytes kb_of_205_bytes fl_tenth_idem fl_three_tenths_sum)
  have "round2 (1351079888211149 / 4503599627370496) = 5404319552844595 / 18014398509481984"
    by (simp add: round2_def fl_sum_times_100 js_round_sum_times_100 fl_three_tenths)
  then have "totalSize (analyzeAssets example_sizes [''a.png'', ''b.png'']) = 5404319552844595 / 18014398509481984"
    by (simp add: totalSize_sum_left a b sum)
  with sum show ?thesis by simp
qed




section \<open>The score\<close>

lemma score_fold:
  "foldl score_step s recs =
     s - 15 * count_priority ''high'' recs - 10 * count_priority ''medium'' recs
       - 5 * count_priority ''low'' recs"
proof (induction recs arbitrary: s)
  case Nil
  then show ?case by (simp add: count_priority_def)
next
  case (Cons r recs)
  show ?case
    by (simp add: Cons.IH) (simp add: score_step_def count_priority_def)
qed

text \<open>
  Claim C4. The score of a list of recommendations is 100 minus 15 for each of priority
  high, 10 for each medium and 5 for each low, and at least 0. The empty list scores 100,
  which is Excellent; two high and one medium score 60, which is Caution; ten high score 0.
  The band is Excellent from 90, Good from 70 to below 90, Caution from 50 to below 70 and
  NeedsWork below 50.
\<close>

theorem compute_score_formula:
  "compute_score recs =
     max 0 (100 - 15 * count_priority ''high'' recs - 10 * count_priority ''medium'' recs
              - 5 * count_priority ''low'' recs) \<and>
   compute_score [] = 100 \<and> band_of (compute_score []) = Excellent \<and>
   compute_score [high_example, high_example, medium_example] = 60 \<and>
   band_of (compute_score [high_example, high_example, medium_example]) = Caution \<and>
   compute_score (replicate 10 high_example) = 0 \<and>
   (band_of s = Excellent) = (90 \<le> s) \<and>
   (band_of s = GoodBand) = (70 \<le> s \<and> s < 90) \<and>
   (band_of s = Caution) = (50 \<le> s \<and> s < 70) \<and>
   (band_of s = NeedsWork) = (s < 50)"
proof -
  have formula: "compute_score recs =
           max 0 (100 - 15 * count_priority ''high'' recs - 10 * count_priority ''medium'' recs
                    - 5 * count_priority ''low'' recs)"
    by (simp add: compute_score_def score_fold)
  have empty: "compute_score [] = 100" "band_of (compute_score []) = Excellent"
    by (simp_all add: compute_score_def band_of_def)
  have three: "compute_score [high_example, high_example, medium_example] = 60"
    by (simp add: compute_score_def score_step_def high_example_def medium_example_def)
  have ten: "compute_score (replicate 10 high_example) = 0"
    by (simp add: compute_score_def score_fold count_priority_def high_example_def)
  have bands: "(band_of s = Excellent) = (90 \<le> s)" "(band_of s = GoodBand) = (70 \<le> s \<and> s < 90)"
    "(band_of s = Caution) = (50 \<le> s \<and> s < 70)" "(band_of s = NeedsWork) = (s < 50)"
    by (auto simp: band_of_def)
  have caution: "band_of (compute_score [high_example, high_example, medium_example]) = Caution"
    unfolding three by (simp add: band_of_def)
  show ?thesis
    by (intro conjI) (fact formula empty three ten bands caution)+
qed

section \<open>The analyzers on the examples\<close>

lemma analyze_example_markup:
  "analyzeJSPerformance example_markup =
     \<lparr>totalJSLines = 1, eventListeners = 0, setTimeoutUsage = 2, setIntervalUsage = 0,
      animationFrameUsage = 0, domQueries = 0, scriptTags = 1\<rparr>"
  by code_simp

lemma analyzeAssets_Nil: "analyzeAssets stat_size [] = empty_inventory"
  by (simp add: analyzeAssets_def empty_inventory_def round2_0)

lemma engine_css_zero: "evaluateCSSPerformance css_zero recs = recs"
  by (simp add: evaluateCSSPerformance_def css_zero_def push_if_def)

lemma engine_empty_inventory: "evaluateAssetPerformance empty_inventory recs = recs"
  by (simp add: evaluateAssetPerformance_def empty_inventory_def push_if_def entries_def)

text \<open>
  Claim C5. On the markup \<^verbatim>\<open><script>setTimeout(f,1);setTimeout(g,2);</script>\<close> the script
  analyzer counts two uses of setTimeout and none of requestAnimationFrame, and the
  recommendation engine, given these metrics with empty stylesheet metrics and an empty
  inventory (or given script metrics that are zero but for the two setTimeout), produces
  exactly one recommendation: the high-priority JavaScript one of the rule for
  "no requestAnimationFrame and some setTimeout".
\<close>

theorem script_example:
  "setTimeoutUsage (analyzeJSPerformance example_markup) = 2 \<and>
   animationFrameUsage (analyzeJSPerformance example_markup) = 0 \<and>
   recommendation_engine css_zero (analyzeJSPerformance example_markup) empty_inventory =
     [\<lparr>type = ''JavaScript'', priority = ''high'', message = UseAnimationFrame\<rparr>] \<and>
   recommendation_engine css_zero (js_zero\<lparr>setTimeoutUsage := 2\<rparr>) empty_inventory =
     [\<lparr>type = ''JavaScript'', priority = ''high'', message = UseAnimationFrame\<rparr>]"
  by (simp add: analyze_example_markup recommendation_engine_def engine_css_zero
      engine_empty_inventory evaluateJSPerformance_def push_if_def js_zero_def)

lemma no_opener_no_match:
  "lit_match True ''<script'' s = None \<Longrightarrow> alt_match True script_re s = None"
  by (simp add: script_re_def)

lemma no_opener_no_blocks: "\<not> has_script_opener s \<Longrightarrow> scriptMatches s = []"
proof (induction s)
  case Nil
  show ?case unfolding scriptMatches_def
    by (subst match_all.simps) (simp add: script_re_def)
next
  case (Cons c cs)
  then have none: "alt_match True script_re (c # cs) = None" and rest: "match_all True script_re cs = []"
    by (simp_all add: no_opener_no_match scriptMatches_def)
  show ?case unfolding scriptMatches_def
    by (subst match_all.simps) (simp add: none rest)
qed

text \<open>
  Claim C6. For every markup in which the analyzer finds no script block, all six counters
  and the number of script tags are 0; the analyzer is a total function, so this is an
  ordinary result. By \<open>no_opener_no_blocks\<close> this covers every markup without the text
  \<^verbatim>\<open><script\<close>.
\<close>

theorem no_script_blocks:
  assumes "scriptMatches htmlContent = []"
  shows "analyzeJSPerformance htmlContent =
     \<lparr>totalJSLines = 0, eventListeners = 0, setTimeoutUsage = 0, setIntervalUsage = 0,
      animationFrameUsage = 0, domQueries = 0, scriptTags = 0\<rparr>"
  using assms by (simp add: analyzeJSPerformance_def js_zero_def)

theorem no_script_blocks_witness:
  "scriptMatches ''<p>Hello</p>'' = [] \<and>
   analyzeJSPerformance ''<p>Hello</p>'' =
     \<lparr>totalJSLines = 0, eventListeners = 0, setTimeoutUsage = 0, setIntervalUsage = 0,
      animationFrameUsage = 0, domQueries = 0, scriptTags = 0\<rparr>"
proof -
  have h: "scriptMatches ''<p>Hello</p>'' = []" by code_simp
  show ?thesis using no_script_blocks [OF h] h by simp
qed

lemma example_css_complex: "count_matches complex_selector_re example_css = 2"
  by code_simp

lemma example_css_important: "count_matches important_re example_css = 2"
  by code_simp

lemma example_css_media: "count_matches (at_rule_re ''@media'') example_css = 1"
  by code_simp

text \<open>
  Claim C7. On the text
  \<^verbatim>\<open>.a .b .c .d { color:red; } @media (max-width:1px){ } !important !important\<close>
  the stylesheet analyzer finds at least one complex selector (it finds two), one media
  query and two uses of \<^verbatim>\<open>!important\<close>.
\<close>

theorem css_example:
  "complexSelectors (analyzeCSSPerformance example_css) \<ge> 1 \<and>
   mediaQueries (analyzeCSSPerformance example_css) = 1 \<and>
   importantUsage (analyzeCSSPerformance example_css) = 2"
  by (simp add: analyzeCSSPerformance_def example_css_complex example_css_media
      example_css_important)

section \<open>The presentation of the recommendations\<close>

lemma print_items_numbered: "print_items recs = numbered recs"
proof -
  have "zip [1..<Suc (length recs)] recs = map (\<lambda>(i, r). (Suc i, r)) (zip [0..<length recs] recs)"
    by (simp add: map_Suc_upt [symmetric] zip_map1 del: upt_Suc)
  then show ?thesis
    by (simp add: print_items_def numbered_def case_prod_unfold comp_def del: upt_Suc)
qed

lemma items_of_numbered: "filter is_item (numbered recs) = numbered recs"
  by (simp add: numbered_def is_item_def case_prod_unfold del: upt_Suc)

lemma items_of_group:
  "filter is_item (print_group recs p) = numbered (with_priority p recs)"
proof (cases "with_priority p recs = []")
  case True
  then show ?thesis by (simp add: print_group_def with_priority_def numbered_def)
next
  case False
  then show ?thesis
    by (simp add: print_group_def with_priority_def [symmetric] Let_def print_items_numbered
        items_of_numbered) (simp add: is_item_def)
qed

text \<open>
  Claim C8. For every list of recommendations, the numbered lines that are printed are those
  of priority high, then those of priority medium, then those of priority low, each group in
  the order of the list and numbered from 1.
\<close>

theorem presentation_order:
  "filter is_item (print_recommendations recs) =
     numbered (with_priority ''high'' recs) @ numbered (with_priority ''medium'' recs)
       @ numbered (with_priority ''low'' recs)"
proof (cases "recs = []")
  case True
  then show ?thesis
    by (simp add: print_recommendations_def is_item_def with_priority_def numbered_def)
next
  case False
  then show ?thesis
    by (simp add: print_recommendations_def priorityOrder_def items_of_group) (simp add: is_item_def)
qed

section \<open>The rule of the WebP format\<close>

lemma set_entries: "set (entries obj) = set obj"
  by (auto simp: entries_def)

lemma set_keys: "set (keys obj) = fst ` set obj"
  by (simp add: keys_def set_entries)

lemma keys_set_property:
  "fst ` set (set_property obj k v) =
     (if k = ''__proto__'' then fst ` set obj else insert k (fst ` set obj))"
  by (force simp: set_property_def split: if_splits)

lemma asset_fold_keys:
  "fst ` set (snd (foldl (asset_step stat_size) (t, d) assets)) =
     fst ` set d \<union> (set assets - {''__proto__''})"
proof (induction assets arbitrary: t d)
  case Nil
  then show ?case by simp
next
  case (Cons a assets)
  have step: "asset_step stat_size (t, d) a =
      (fl (t + kb_of_bytes (stat_size a)),
       set_property d a \<lparr>asset_size = kb_of_bytes (stat_size a),
         asset_type = toLowerCase (extname a),
         status = evaluateAssetSize a (kb_of_bytes (stat_size a))\<rparr>)"
    by (simp add: asset_step_def Let_def)
  show ?case
    unfolding foldl_Cons step Cons.IH keys_set_property by auto
qed

lemma proto_not_webp: "\<not> is_webp ''__proto__''"
  unfolding is_webp_def by code_simp

lemma hasWebP_analyzeAssets:
  "hasWebP (analyzeAssets stat_size assets) = list_ex is_webp assets"
proof -
  have "set (keys (details (analyzeAssets stat_size assets))) = set assets - {''__proto__''}"
    by (simp add: analyzeAssets_def Let_def set_keys asset_fold_keys)
  then have "hasWebP (analyzeAssets stat_size assets) = (\<exists>a \<in> set assets - {''__proto__''}. is_webp a)"
    by (simp add: hasWebP_def list_ex_iff is_webp_def [abs_def])
  also have "\<dots> = (\<exists>a \<in> set assets. is_webp a)"
    using proto_not_webp by auto
  finally show ?thesis by (simp add: list_ex_iff)
qed

lemma large_asset_fold_webp:
  "filter (\<lambda>r. r = webp_recommendation) (foldl large_asset_step recs es) =
   filter (\<lambda>r. r = webp_recommendation) recs"
  by (induction es arbitrary: recs)
     (simp_all add: large_asset_step_def push_if_def webp_recommendation_def)

text \<open>
  Claim C9. For every listing of assets, the rule set of the assets appends the low-priority
  recommendation of the WebP format exactly once if the inventory counts at least one asset
  and no asset has the extension \<^verbatim>\<open>.webp\<close> in any case of its letters, and does not append
  it otherwise; in particular never for an inventory of no asset.
\<close>

theorem webp_rule:
  "filter (\<lambda>r. r = webp_recommendation)
     (evaluateAssetPerformance (analyzeAssets stat_size assets) recs) =
   filter (\<lambda>r. r = webp_recommendation) recs @
     (if 0 < totalAssets (analyzeAssets stat_size assets) \<and> \<not> list_ex is_webp assets
      then [webp_recommendation] else [])"
proof -
  have ne: "\<lparr>type = ''Assets'', priority = ''high'', message = OptimizeImages\<rparr> \<noteq> webp_recommendation"
    by (simp add: webp_recommendation_def)
  show ?thesis
    by (simp add: evaluateAssetPerformance_def Let_def hasWebP_analyzeAssets)
       (simp add: push_if_def large_asset_fold_webp ne)
qed

section \<open>The priorities of a run\<close>

lemma valid_push_if:
  "valid_priority r \<Longrightarrow> list_all valid_priority recs \<Longrightarrow> list_all valid_priority (push_if c r recs)"
  by (simp add: push_if_def)

lemma valid_css:
  "list_all valid_priority recs \<Longrightarrow> list_all valid_priority (evaluateCSSPerformance a recs)"
  by (simp add: evaluateCSSPerformance_def Let_def valid_push_if valid_priority_def)

lemma valid_js:
  "list_all valid_priority recs \<Longrightarrow> list_all valid_priority (evaluateJSPerformance a recs)"
  by (simp add: evaluateJSPerformance_def Let_def valid_push_if valid_priority_def)

lemma valid_large_fold:
  "list_all valid_priority recs \<Longrightarrow> list_all valid_priority (foldl large_asset_step recs es)"
  by (induction es arbitrary: recs)
     (simp_all add: large_asset_step_def valid_push_if valid_priority_def)

lemma valid_assets:
  "list_all valid_priority recs \<Longrightarrow> list_all valid_priority (evaluateAssetPerformance a recs)"
  by (simp add: evaluateAssetPerformance_def Let_def valid_push_if valid_large_fold
      valid_priority_def webp_recommendation_def)

lemma recommendations_file_step: "recommendations (file_step fs res file) = recommendations res"
  by (simp add: file_step_def Let_def split: option.splits)

lemma recommendations_analyzeFileSizes:
  "recommendations (foldl (file_step fs) res files) = recommendations res"
  by (induction files arbitrary: res) (simp_all add: recommendations_file_step)

lemma valid_run: "list_all valid_priority (recommendations (run_results fs))"
proof -
  have r0: "list_all valid_priority (recommendations (analyzeFileSizes fs results_init))"
    by (simp add: analyzeFileSizes_def recommendations_analyzeFileSizes results_init_def)
  have r1: "list_all valid_priority (recommendations (run_css fs res))"
    if "list_all valid_priority (recommendations res)" for res
    using that by (simp add: run_css_def Let_def valid_css split: option.splits)
  have r2: "list_all valid_priority (recommendations (run_js fs res))"
    if "list_all valid_priority (recommendations res)" for res
    using that by (simp add: run_js_def Let_def valid_js split: option.splits)
  have r3: "list_all valid_priority (recommendations (run_assets fs res))"
    if "list_all valid_priority (recommendations res)" for res
    using that by (simp add: run_assets_def Let_def valid_assets split: option.splits)
  show ?thesis unfolding run_results_def by (intro r3 r2 r1 r0)
qed

lemma count_by_priority:
  "list_all valid_priority recs \<Longrightarrow>
   length recs = length (filter (\<lambda>r. priority r = ''high'') recs)
     + length (filter (\<lambda>r. priority r = ''medium'') recs)
     + length (filter (\<lambda>r. priority r = ''low'') recs)"
  by (induction recs) (auto simp: valid_priority_def)

text \<open>
  Claim C10. Every recommendation of a run has priority high, medium or low, and in the
  report of every run the number of recommendations is the sum of the three counts by
  priority.
\<close>

theorem summary_counts_add_up:
  "list_all valid_priority (recommendations (report_details (run fs))) \<and>
   totalRecommendations (summary (run fs)) =
     highPriorityIssues (summary (run fs)) + mediumPriorityIssues (summary (run fs))
       + lowPriorityIssues (summary (run fs))"
  using count_by_priority [OF valid_run [of fs]] valid_run [of fs]
  by (simp add: run_def Let_def saveJSONReport_def)

end
